theory Spec2Isabelle
  imports Complex_Main "HOL-Library.Char_ord" "HOL-Library.List_Lexorder"
begin

section \<open>Python strings\<close>

text \<open>
  A Python \<open>str\<close> is modelled as a \<open>string\<close>; a \<open>char\<close> stands for a code point
  below 256. On these code points \<open>str.isspace\<close>, \<open>str.split\<close>, \<open>str.strip\<close> and
  the regular expression class \<open>\s\<close> agree on the twelve characters listed below.
\<close>

definition whitespace :: "char list" where
  "whitespace = [CHR 0x09, CHR 0x0A, CHR 0x0B, CHR 0x0C, CHR 0x0D,
                 CHR 0x1C, CHR 0x1D, CHR 0x1E, CHR 0x1F, CHR 0x20, CHR 0x85, CHR 0xA0]"

definition isspace :: "char \<Rightarrow> bool" where
  "isspace c = (c \<in> set whitespace)"

definition ascii_uppercase :: string where
  "ascii_uppercase = ''ABCDEFGHIJKLMNOPQRSTUVWXYZ''"

definition ascii_lowercase :: string where
  "ascii_lowercase = ''abcdefghijklmnopqrstuvwxyz''"

definition digits :: string where
  "digits = ''0123456789''"

text \<open>
  \<open>str.lower()\<close>: the ASCII capitals go to their small letters. The capitals of the
  upper half of the code points below 256 (\<open>0xC0\<close> to \<open>0xDE\<close> without \<open>0xD7\<close>) go
  to the code point 32 higher, as Unicode has it.
\<close>

definition lower_char :: "char \<Rightarrow> char" where
  "lower_char c =
     (case map_of (zip ascii_uppercase ascii_lowercase) c of
        Some d \<Rightarrow> d
      | None \<Rightarrow>
          (if CHR 0xC0 \<le> c \<and> c \<le> CHR 0xDE \<and> c \<noteq> CHR 0xD7
           then char_of (of_char c + (32::nat)) else c))"

definition str_lower :: "string \<Rightarrow> string" where
  "str_lower s = map lower_char s"

text \<open>
  \<open>str.split()\<close> without a separator: runs of whitespace separate the words, and no
  word is empty. \<open>split_from w s\<close> scans \<open>s\<close> with the word \<open>w\<close> read so far.
\<close>

fun split_from :: "string \<Rightarrow> string \<Rightarrow> string list" where
  "split_from w [] = (if w = [] then [] else [w])"
| "split_from w (c # cs) =
     (if isspace c then (if w = [] then split_from [] cs else w # split_from [] cs)
      else split_from (w @ [c]) cs)"

definition str_split :: "string \<Rightarrow> string list" where
  "str_split s = split_from [] s"

text \<open>\<open>sep.join(words)\<close>.\<close>

fun str_join :: "string \<Rightarrow> string list \<Rightarrow> string" where
  "str_join sep [] = []"
| "str_join sep [w] = w"
| "str_join sep (w # v # ws) = w @ sep @ str_join sep (v # ws)"

text \<open>\<open>str.strip()\<close>: whitespace is removed at both ends.\<close>

definition str_strip :: "string \<Rightarrow> string" where
  "str_strip s = rev (dropWhile isspace (rev (dropWhile isspace s)))"

text \<open>\<open>int(x)\<close> on a float: truncation toward zero.\<close>

definition py_int :: "real \<Rightarrow> int" where
  "py_int x = (if 0 \<le> x then \<lfloor>x\<rfloor> else \<lceil>x\<rceil>)"

section \<open>The SDG classifier (research\_graph/utils.py)\<close>

text \<open>
  \<open>SDGChoices\<close> (research\_graph/models.py) is a \<open>TextChoices\<close> enumeration: each
  member is the string \<open>sdg_code\<close> gives, and members compare as these strings do.
\<close>

datatype SDGChoices =
    SDG_1 | SDG_2 | SDG_3 | SDG_4 | SDG_5 | SDG_6 | SDG_7 | SDG_8 | SDG_9
  | SDG_10 | SDG_11 | SDG_12 | SDG_13 | SDG_14 | SDG_15 | SDG_16 | SDG_17

fun sdg_code :: "SDGChoices \<Rightarrow> string" where
  "sdg_code SDG_1 = ''SDG_1''"
| "sdg_code SDG_2 = ''SDG_2''"
| "sdg_code SDG_3 = ''SDG_3''"
| "sdg_code SDG_4 = ''SDG_4''"
| "sdg_code SDG_5 = ''SDG_5''"
| "sdg_code SDG_6 = ''SDG_6''"
| "sdg_code SDG_7 = ''SDG_7''"
| "sdg_code SDG_8 = ''SDG_8''"
| "sdg_code SDG_9 = ''SDG_9''"
| "sdg_code SDG_10 = ''SDG_10''"
| "sdg_code SDG_11 = ''SDG_11''"
| "sdg_code SDG_12 = ''SDG_12''"
| "sdg_code SDG_13 = ''SDG_13''"
| "sdg_code SDG_14 = ''SDG_14''"
| "sdg_code SDG_15 = ''SDG_15''"
| "sdg_code SDG_16 = ''SDG_16''"
| "sdg_code SDG_17 = ''SDG_17''"

text \<open>The number of the goal: the position of the member in the enumeration.\<close>

fun sdg_number :: "SDGChoices \<Rightarrow> nat" where
  "sdg_number SDG_1 = 1"
| "sdg_number SDG_2 = 2"
| "sdg_number SDG_3 = 3"
| "sdg_number SDG_4 = 4"
| "sdg_number SDG_5 = 5"
| "sdg_number SDG_6 = 6"
| "sdg_number SDG_7 = 7"
| "sdg_number SDG_8 = 8"
| "sdg_number SDG_9 = 9"
| "sdg_number SDG_10 = 10"
| "sdg_number SDG_11 = 11"
| "sdg_number SDG_12 = 12"
| "sdg_number SDG_13 = 13"
| "sdg_number SDG_14 = 14"
| "sdg_number SDG_15 = 15"
| "sdg_number SDG_16 = 16"
| "sdg_number SDG_17 = 17"

text \<open>
  Python compares two members as strings: code point by code point, a proper prefix
  first. This is the order of \<open>string\<close> here.
\<close>

instantiation SDGChoices :: linorder
begin

definition less_eq_SDGChoices :: "SDGChoices \<Rightarrow> SDGChoices \<Rightarrow> bool" where
  "less_eq_SDGChoices a b = (sdg_code a \<le> sdg_code b)"

definition less_SDGChoices :: "SDGChoices \<Rightarrow> SDGChoices \<Rightarrow> bool" where
  "less_SDGChoices a b = (sdg_code a < sdg_code b)"

instance
proof
  fix x y z :: SDGChoices
  show "(x < y) = (x \<le> y \<and> \<not> y \<le> x)"
    by (auto simp: less_eq_SDGChoices_def less_SDGChoices_def)
  show "x \<le> x"
    by (simp add: less_eq_SDGChoices_def)
  show "x \<le> y \<Longrightarrow> y \<le> z \<Longrightarrow> x \<le> z"
    by (simp add: less_eq_SDGChoices_def)
  show "x \<le> y \<or> y \<le> x"
    by (auto simp: less_eq_SDGChoices_def)
  show "x \<le> y \<Longrightarrow> y \<le> x \<Longrightarrow> x = y"
  proof -
    assume "x \<le> y" and "y \<le> x"
    then have "sdg_code x = sdg_code y"
      by (simp add: less_eq_SDGChoices_def)
    then show "x = y"
      by (cases x; cases y; simp)
  qed
qed

end

text \<open>
  \<open>SDG_KEYWORDS\<close>: a dictionary literal, so its items are iterated in the order
  written.
\<close>

definition SDG_KEYWORDS :: "(SDGChoices \<times> string list) list" where
  "SDG_KEYWORDS = [
    (SDG_1, [''poverty'', ''poor'', ''low-income'', ''vulnerable'', ''disadvantaged'',
      ''economic inequality'', ''welfare'', ''subsistence'', ''destitution'',
      ''extreme poverty'', ''absolute poverty'', ''poverty alleviation'',
      ''impoverished'', ''impoverishment'', ''deprivation'', ''inequitable'',
      ''income inequality'', ''wealth gap'', ''economic disparity'']),
    (SDG_2, [''hunger'', ''food security'', ''malnutrition'', ''famine'', ''starvation'',
      ''agriculture'', ''crop'', ''farming'', ''livestock'', ''nutrition'',
      ''food production'', ''agricultural productivity'', ''food supply'',
      ''subsistence farming'', ''food insecurity'', ''dietary'', ''nutritional'']),
    (SDG_3, [''health'', ''disease'', ''medical'', ''healthcare'', ''illness'', ''wellness'',
      ''hospital'', ''clinic'', ''physician'', ''medicine'', ''treatment'', ''vaccine'',
      ''mortality'', ''morbidity'', ''epidemiology'', ''pandemic'', ''epidemic'',
      ''mental health'', ''well-being'', ''healthy'', ''sanitation'', ''hygiene'']),
    (SDG_4, [''education'', ''learning'', ''school'', ''university'', ''student'',
      ''teacher'', ''curriculum'', ''academic'', ''literacy'', ''training'',
      ''skill development'', ''educational'', ''pedagogical'', ''didactic'',
      ''higher education'', ''primary education'', ''secondary education'',
      ''quality education'', ''equal education'']),
    (SDG_5, [''gender equality'', ''gender'', ''women'', ''female'', ''woman'',
      ''feminism'', ''feminist'', ''discrimination'', ''bias'', ''equity'',
      ''women's rights'', ''gender-based violence'', ''sexual harassment'',
      ''empowerment'', ''gender parity'', ''male-female'', ''gender gap'']),
    (SDG_6, [''water'', ''sanitation'', ''hygiene'', ''clean water'', ''drinking water'',
      ''water supply'', ''water treatment'', ''wastewater'', ''sewage'',
      ''water quality'', ''water scarcity'', ''water pollution'', ''aquatic'',
      ''hydration'', ''water security'', ''water resources'']),
    (SDG_7, [''energy'', ''renewable'', ''solar'', ''wind'', ''hydroelectric'', ''geothermal'',
      ''fossil fuel'', ''electricity'', ''power'', ''clean energy'', ''sustainable energy'',
      ''energy efficiency'', ''energy access'', ''energy security'', ''biofuel'',
      ''nuclear energy'', ''energy transition'']),
    (SDG_8, [''employment'', ''jobs'', ''work'', ''labor'', ''labour'', ''wage'', ''workplace'',
      ''economic growth'', ''economic development'', ''productivity'', ''entrepreneurship'',
      ''business'', ''decent work'', ''working conditions'', ''unemployment'',
      ''formal employment'', ''informal economy'']),
    (SDG_9, [''infrastructure'', ''industry'', ''innovation'', ''technology'', ''industrial'',
      ''manufacturing'', ''construct'', ''bridge'', ''road'', ''transport'',
      ''innovation'', ''research'', ''development'', ''industrial development'',
      ''resilient infrastructure'', ''sustainable industry'', ''ict'']),
    (SDG_10, [''inequality'', ''inequitable'', ''inequity'', ''discrimination'', ''marginalize'',
      ''disadvantaged'', ''vulnerable'', ''disparity'', ''gap'', ''unequal'',
      ''social inclusion'', ''social cohesion'', ''redistribution'', ''equity'']),
    (SDG_11, [''city'', ''urban'', ''community'', ''settlement'', ''housing'', ''slum'',
      ''sustainable city'', ''sustainable community'', ''livable'', ''resilient'',
      ''disaster reduction'', ''infrastructure'', ''pollution'', ''green space'',
      ''public transport'', ''municipal'']),
    (SDG_12, [''consumption'', ''production'', ''waste'', ''recycle'', ''circular economy'',
      ''sustainable consumption'', ''responsible consumption'', ''resource'',
      ''material'', ''pollution'', ''sustainable management'', ''reduce'',
      ''reuse'', ''repurpose'', ''lifecycle'', ''footprint'']),
    (SDG_13, [''climate'', ''global warming'', ''greenhouse gas'', ''carbon'', ''emissions'',
      ''temperature'', ''weather'', ''climate change'', ''mitigation'', ''adaptation'',
      ''climate action'', ''climate variability'', ''extreme weather'', ''gdp'',
      ''carbon dioxide'', ''methane'', ''environmental'']),
    (SDG_14, [''ocean'', ''marine'', ''sea'', ''aquatic'', ''fish'', ''fishing'', ''coral'',
      ''marine ecosystem'', ''biodiversity'', ''ocean acidification'', ''pollution'',
      ''overfishing'', ''sustainable fisheries'', ''coastal'', ''blue economy'',
      ''maritime'', ''water body'']),
    (SDG_15, [''forest'', ''woodland'', ''terrestrial'', ''ecosystem'', ''biodiversity'',
      ''species'', ''wildlife'', ''conservation'', ''endangered'', ''habitat'',
      ''deforestation'', ''land degradation'', ''desertification'', ''wetland'',
      ''vegetation'', ''fauna'', ''flora'']),
    (SDG_16, [''peace'', ''justice'', ''institution'', ''governance'', ''corruption'',
      ''violence'', ''conflict'', ''law enforcement'', ''legal'', ''rule of law'',
      ''human rights'', ''discrimination'', ''accountability'', ''transparency'',
      ''democratic'', ''inclusive'']),
    (SDG_17, [''partnership'', ''collaboration'', ''cooperation'', ''stakeholder'', ''multi-stakeholder'',
      ''network'', ''alliance'', ''development'', ''finance'', ''investment'',
      ''technology transfer'', ''capacity building'', ''global partnership'',
      ''sustainable development''])]"

text \<open>
  \<open>_normalize_text\<close>: lower case, every character outside \<open>[a-z0-9\s\-]\<close> replaced
  by a space, then the words joined by single spaces.
\<close>

definition re_sub_special :: "string \<Rightarrow> string" where
  "re_sub_special s =
     map (\<lambda>c. if c \<in> set ascii_lowercase \<or> c \<in> set digits \<or> isspace c \<or> c = CHR ''-''
              then c else CHR '' '') s"

definition normalize_text :: "string \<Rightarrow> string" where
  "normalize_text text = str_join '' '' (str_split (re_sub_special (str_lower text)))"

text \<open>\<open>_tokenize\<close>: the set of the words.\<close>

definition tokenize :: "string \<Rightarrow> string set" where
  "tokenize text = set (str_split text)"

text \<open>
  \<open>_count_keyword_matches\<close>: \<open>count_step\<close> is one round of the loop over the
  keywords, on the running \<open>count\<close>; the result is \<open>int(count)\<close>.
\<close>

definition count_step :: "string set \<Rightarrow> string \<Rightarrow> real \<Rightarrow> real" where
  "count_step tokens keyword count =
     (let keyword_lower = str_lower keyword;
          keyword_tokens = str_split keyword_lower
      in if list_all (\<lambda>token. token \<in> tokens) keyword_tokens then count + 1
         else if list_ex (\<lambda>token. token \<in> tokens) keyword_tokens then count + 1 / 2
         else count)"

definition count_keyword_matches :: "string set \<Rightarrow> string list \<Rightarrow> int" where
  "count_keyword_matches tokens keywords = py_int (fold (count_step tokens) keywords 0)"

text \<open>
  \<open>classify_text\<close>: \<open>classify_loop\<close> is the loop over the items of \<open>SDG_KEYWORDS\<close>,
  on the list \<open>detected_sdgs\<close> built so far. The threshold is a real number: the
  division and the comparison are the exact ones.
\<close>

fun classify_loop ::
  "string set \<Rightarrow> real \<Rightarrow> (SDGChoices \<times> string list) list \<Rightarrow> SDGChoices list \<Rightarrow> SDGChoices list"
where
  "classify_loop tokens threshold [] detected_sdgs = detected_sdgs"
| "classify_loop tokens threshold ((sdg_choice, keywords) # items) detected_sdgs =
     (let matches = count_keyword_matches tokens keywords
      in if matches = 0 then classify_loop tokens threshold items detected_sdgs
         else let match_ratio = real_of_int matches / real (length keywords)
              in if match_ratio \<ge> threshold
                 then classify_loop tokens threshold items (detected_sdgs @ [sdg_choice])
                 else classify_loop tokens threshold items detected_sdgs)"

definition classify_text :: "string \<Rightarrow> real \<Rightarrow> SDGChoices list" where
  "classify_text text threshold =
     (if text = [] \<or> str_strip text = [] then []
      else let normalized_text = normalize_text text;
               tokens = tokenize normalized_text
           in classify_loop tokens threshold SDG_KEYWORDS [])"

text \<open>
  \<open>classify_publication\<close>: \<open>sdgs_detected\<close> is a set, and \<open>sorted(list(...))\<close> is its
  sorted list.
\<close>

definition classify_publication :: "string \<Rightarrow> string \<Rightarrow> real \<Rightarrow> SDGChoices list" where
  "classify_publication title abstract threshold =
     (let sdgs_detected = {};
          sdgs_detected =
            (if title \<noteq> [] then sdgs_detected \<union> set (classify_text title (threshold + 1 / 10))
             else sdgs_detected);
          sdgs_detected =
            (if abstract \<noteq> [] then sdgs_detected \<union> set (classify_text abstract threshold)
             else sdgs_detected)
      in sorted_list_of_set sdgs_detected)"

text \<open>\<open>get_keywords_for_sdg\<close>: \<open>SDG_KEYWORDS.get(sdg_choice, [])\<close>.\<close>

definition get_keywords_for_sdg :: "SDGChoices \<Rightarrow> string list" where
  "get_keywords_for_sdg sdg_choice =
     (case map_of SDG_KEYWORDS sdg_choice of Some keywords \<Rightarrow> keywords | None \<Rightarrow> [])"

section \<open>Embeddings and matching (research\_graph/services.py)\<close>

text \<open>
  Exceptions are values: a computation that may raise returns \<open>exn + 'a\<close>, and
  \<open>try_except body handler\<close> is \<open>try: body except Exception as e: handler\<close>.
  Every constructor of \<open>exn\<close> is a subclass of \<open>Exception\<close>.
\<close>

datatype exn = TypeError | ValueError | DataError | RuntimeError

definition try_except :: "exn + 'a \<Rightarrow> (exn \<Rightarrow> exn + 'a) \<Rightarrow> exn + 'a" where
  "try_except body handler = (case body of Inl e \<Rightarrow> handler e | Inr v \<Rightarrow> Inr v)"

text \<open>
  The state of the process: the module variable \<open>_embedding_model\<close> (\<open>None\<close>,
  \<open>False\<close> after a failed load, or the model) and the state of numpy's global
  random generator.
\<close>

datatype 'm handle = NotLoaded | LoadFailed | Loaded 'm

record ('m, 'g) process =
  embedding_model :: "'m handle"
  np_random :: 'g

text \<open>
  The libraries the module calls, as parameters: what
  \<open>SentenceTransformer('all-MiniLM-L6-v2')\<close> gives in this process, \<open>model.encode\<close>
  followed by \<open>tolist\<close>, the built-in \<open>hash\<close> on strings, \<open>np.random.seed\<close> and
  \<open>np.random.randn\<close>, and the value of the expression
  \<open>CosineDistance()._output_field.get_default()\<close>.
\<close>

record ('m, 'g) library =
  SentenceTransformer :: "exn + 'm"
  encode :: "'m \<Rightarrow> string \<Rightarrow> exn + real list"
  hash :: "string \<Rightarrow> int"
  seed :: "int \<Rightarrow> 'g"
  randn :: "'g \<Rightarrow> nat \<Rightarrow> real list \<times> 'g"
  output_field_default :: "exn + real"

text \<open>\<open>get_embedding_model\<close>: the model is loaded at the first call only.\<close>

definition get_embedding_model ::
  "('m, 'g) library \<Rightarrow> ('m, 'g) process \<Rightarrow> 'm option \<times> ('m, 'g) process" where
  "get_embedding_model lib s =
     (case embedding_model s of
        NotLoaded \<Rightarrow>
          (case SentenceTransformer lib of
             Inr m \<Rightarrow> (Some m, s\<lparr>embedding_model := Loaded m\<rparr>)
           | Inl e \<Rightarrow> (None, s\<lparr>embedding_model := LoadFailed\<rparr>))
      | LoadFailed \<Rightarrow> (None, s)
      | Loaded m \<Rightarrow> (Some m, s))"

definition EMBEDDING_DIMENSION :: nat where
  "EMBEDDING_DIMENSION = 384"

text \<open>\<open>np.linalg.norm\<close> of a vector, over the reals.\<close>

definition l2_norm :: "real list \<Rightarrow> real" where
  "l2_norm v = sqrt (sum_list (map (\<lambda>x. x * x) v))"

text \<open>
  \<open>EmbeddingService.get_embedding\<close>. An exception of \<open>encode\<close> is caught and gives
  \<open>None\<close>; a loaded model is true in \<open>if model\<close>.
\<close>

definition get_embedding ::
  "('m, 'g) library \<Rightarrow> ('m, 'g) process \<Rightarrow> string \<Rightarrow> real list option \<times> ('m, 'g) process" where
  "get_embedding lib s text =
     (if text = [] \<or> str_strip text = [] then (None, s)
      else
        let (model, s) = get_embedding_model lib s
        in case model of
             Some m \<Rightarrow>
               (case encode lib m text of
                  Inr embedding \<Rightarrow> (Some embedding, s)
                | Inl e \<Rightarrow> (None, s))
           | None \<Rightarrow>
               (let g = seed lib (hash lib text mod 2 ^ 32);
                    (embedding, g) = randn lib g EMBEDDING_DIMENSION;
                    embedding = map (\<lambda>x. x / l2_norm embedding) embedding
                in (Some embedding, s\<lparr>np_random := g\<rparr>)))"

text \<open>The rows of the two tables, with the fields the services read.\<close>

record researcher =
  researcher_id :: nat
  department :: "string option"
  interests_embedding :: "real list option"

record publication =
  publication_id :: nat
  abstract_embedding :: "real list option"

record database =
  researchers :: "researcher list"
  publications :: "publication list"

text \<open>
  The cosine distance of two vectors. The database operator behind
  \<open>CosineDistance(field, vector)\<close> and \<open>scipy.spatial.distance.cosine\<close> both compute
  it, and both raise on vectors of different lengths.
\<close>

definition dot :: "real list \<Rightarrow> real list \<Rightarrow> real" where
  "dot u v = sum_list (map2 (*) u v)"

definition cosine_distance :: "real list \<Rightarrow> real list \<Rightarrow> real" where
  "cosine_distance u v = 1 - dot u v / (l2_norm u * l2_norm v)"

definition CosineDistance :: "real list \<Rightarrow> real list \<Rightarrow> exn + real" where
  "CosineDistance u v =
     (if length u \<noteq> length v then Inl DataError else Inr (cosine_distance u v))"

definition cosine :: "real list \<Rightarrow> real list \<Rightarrow> exn + real" where
  "cosine u v =
     (if length u \<noteq> length v then Inl ValueError else Inr (cosine_distance u v))"

text \<open>
  A queryset is one SQL statement, run when the loop iterates over it: the rows that
  pass the filters, each with its distance to the query vector (\<open>annotate\<close>; a row
  whose vector is null is filtered out), in ascending order of the distance, cut to
  the first \<open>top_k\<close> (\<open>fetch\<close>). A negative \<open>top_k\<close> is refused by the slice, and
  \<open>top_k = 0\<close> gives the empty queryset, which runs no statement.
\<close>

fun annotate :: "('a \<Rightarrow> real list option) \<Rightarrow> real list \<Rightarrow> 'a list \<Rightarrow> exn + ('a \<times> real) list" where
  "annotate field q [] = Inr []"
| "annotate field q (x # xs) =
     (case field x of
        None \<Rightarrow> annotate field q xs
      | Some v \<Rightarrow>
          (case CosineDistance v q of
             Inl e \<Rightarrow> Inl e
           | Inr d \<Rightarrow>
               (case annotate field q xs of
                  Inl e \<Rightarrow> Inl e
                | Inr rows \<Rightarrow> Inr ((x, d) # rows))))"

definition fetch :: "exn + ('a \<times> real) list \<Rightarrow> int \<Rightarrow> exn + ('a \<times> real) list" where
  "fetch annotated top_k =
     (if top_k < 0 then Inl ValueError
      else if top_k = 0 then Inr []
      else case annotated of
             Inl e \<Rightarrow> Inl e
           | Inr rows \<Rightarrow> Inr (take (nat top_k) (sort_key snd rows)))"

text \<open>\<open>if department:\<close> holds for a string that is not empty.\<close>

definition department_filter :: "string option \<Rightarrow> researcher list \<Rightarrow> researcher list" where
  "department_filter department' rows =
     (if department' \<noteq> None \<and> department' \<noteq> Some []
      then filter (\<lambda>r. department r = department') rows else rows)"

text \<open>\<open>SupervisorMatchingService.find_supervisor_match\<close>.\<close>

definition find_supervisor_match ::
  "('m, 'g) library \<Rightarrow> database \<Rightarrow> ('m, 'g) process \<Rightarrow> string \<Rightarrow> string option \<Rightarrow> int
   \<Rightarrow> (exn + (researcher \<times> real) list) \<times> ('m, 'g) process" where
  "find_supervisor_match lib db s thesis_abstract department' top_k =
     (let (thesis_embedding, s) = get_embedding lib s thesis_abstract
      in (try_except
            (case thesis_embedding of
               None \<Rightarrow> Inr []
             | Some q \<Rightarrow>
                 (case fetch (annotate interests_embedding q
                                (department_filter department' (researchers db))) top_k of
                    Inl e \<Rightarrow> Inl e
                  | Inr results \<Rightarrow>
                      Inr (map (\<lambda>(researcher, similarity). (researcher, 1 - similarity / 2))
                             results)))
            (\<lambda>e. Inr []), s))"

text \<open>\<open>SupervisorMatchingService.find_thesis_matches\<close>.\<close>

definition find_thesis_matches ::
  "database \<Rightarrow> researcher \<Rightarrow> int \<Rightarrow> exn + (publication \<times> real) list" where
  "find_thesis_matches db researcher top_k =
     try_except
       (case interests_embedding researcher of
          None \<Rightarrow> Inr []
        | Some q \<Rightarrow>
            if q = [] then Inr []
            else (case fetch (annotate abstract_embedding q (publications db)) top_k of
                    Inl e \<Rightarrow> Inl e
                  | Inr results \<Rightarrow>
                      Inr (map (\<lambda>(publication, similarity). (publication, 1 - similarity / 2))
                             results)))
       (\<lambda>e. Inr [])"

text \<open>\<open>GrantAlignmentService.find_aligned_researchers\<close>.\<close>

definition find_aligned_researchers ::
  "('m, 'g) library \<Rightarrow> database \<Rightarrow> ('m, 'g) process \<Rightarrow> string \<Rightarrow> string option \<Rightarrow> int
   \<Rightarrow> (exn + (researcher \<times> real) list) \<times> ('m, 'g) process" where
  "find_aligned_researchers lib db s grant_description department' top_k =
     (let (grant_embedding, s) = get_embedding lib s grant_description
      in (try_except
            (case grant_embedding of
               None \<Rightarrow> Inr []
             | Some q \<Rightarrow>
                 (case fetch (annotate interests_embedding q
                                (department_filter department' (researchers db))) top_k of
                    Inl e \<Rightarrow> Inl e
                  | Inr results \<Rightarrow>
                      Inr (map (\<lambda>(researcher, alignment). (researcher, 1 - alignment / 2))
                             results)))
            (\<lambda>e. Inr []), s))"

text \<open>
  \<open>GrantAlignmentService.score_researcher_for_grant\<close>. The inner \<open>try\<close> around
  \<open>cosine\<close> has a bare \<open>except\<close> that sets the similarity to 0; the line before it
  evaluates \<open>CosineDistance()._output_field.get_default()\<close> under the outer \<open>try\<close>
  only.
\<close>

definition score_researcher_for_grant ::
  "('m, 'g) library \<Rightarrow> ('m, 'g) process \<Rightarrow> researcher \<Rightarrow> string
   \<Rightarrow> (exn + real) \<times> ('m, 'g) process" where
  "score_researcher_for_grant lib s researcher grant_description =
     (case interests_embedding researcher of
        None \<Rightarrow> (Inr 0, s)
      | Some researcher_vector \<Rightarrow>
          if researcher_vector = [] then (Inr 0, s)
          else
            let (grant_embedding, s) = get_embedding lib s grant_description
            in (try_except
                  (case grant_embedding of
                     None \<Rightarrow> Inr 0
                   | Some grant_vector \<Rightarrow>
                       (case output_field_default lib of
                          Inl e \<Rightarrow> Inl e
                        | Inr distance \<Rightarrow>
                            (let similarity =
                                   (case cosine researcher_vector grant_vector of
                                      Inl e \<Rightarrow> 0
                                    | Inr distance_value \<Rightarrow>
                                        if distance_value \<le> 2 then 1 - distance_value / 2 else 0)
                             in Inr (max 0 (min 1 similarity)))))
                  (\<lambda>e. Inr 0), s))"

section \<open>Specification-level definitions\<close>

text \<open>The characters a normalized text is made of.\<close>

definition plain_char :: "char \<Rightarrow> bool" where
  "plain_char c = (c \<in> set ascii_lowercase \<or> c \<in> set digits \<or> c = CHR ''-'' \<or> c = CHR '' '')"

text \<open>
  The scoring rule in the words of the specification: the credit of a phrase against
  a token set, and the match count of a keyword list, truncated toward zero.
\<close>

definition phrase_credit :: "string set \<Rightarrow> string \<Rightarrow> real" where
  "phrase_credit T k =
     (if \<forall>w\<in>set (str_split k). w \<in> T then 1
      else if \<exists>w\<in>set (str_split k). w \<in> T then 1 / 2
      else 0)"

definition match_count :: "string set \<Rightarrow> string list \<Rightarrow> int" where
  "match_count T K = py_int (\<Sum>k\<leftarrow>K. phrase_credit T k)"

text \<open>The test of the loop of \<open>classify_text\<close> on one item.\<close>

definition accepted :: "string set \<Rightarrow> real \<Rightarrow> string list \<Rightarrow> bool" where
  "accepted T t K =
     (count_keyword_matches T K \<noteq> 0 \<and>
      t \<le> real_of_int (count_keyword_matches T K) / real (length K))"

text \<open>
  The fallback vector in the words of the specification: the generator is seeded
  from the hash of the text, 384 samples are drawn and divided by their norm.
\<close>

definition fallback_embedding :: "('m, 'g) library \<Rightarrow> string \<Rightarrow> real list" where
  "fallback_embedding lib text =
     (let samples = fst (randn lib (seed lib (hash lib text mod 2 ^ 32)) 384)
      in map (\<lambda>x. x / l2_norm samples) samples)"

section \<open>Sample data\<close>

text \<open>
  Two library environments (the model fails to load; the model loads and embeds every
  text as \<open>[1, 0]\<close>), a fresh process, and researchers with their stored vectors.
\<close>

definition lib_down :: "(unit, int) library" where
  "lib_down = \<lparr>SentenceTransformer = Inl RuntimeError,
                encode = (\<lambda>m text. Inl RuntimeError),
                hash = (\<lambda>text. int (length text)),
                seed = (\<lambda>n. n),
                randn = (\<lambda>g n. (replicate n 1, g + 1)),
                output_field_default = Inl TypeError\<rparr>"

definition lib_up :: "(unit, int) library" where
  "lib_up = \<lparr>SentenceTransformer = Inr (),
              encode = (\<lambda>m text. Inr [1, 0]),
              hash = (\<lambda>text. int (length text)),
              seed = (\<lambda>n. n),
              randn = (\<lambda>g n. (replicate n 1, g + 1)),
              output_field_default = Inl TypeError\<rparr>"

definition process0 :: "(unit, int) process" where
  "process0 = \<lparr>embedding_model = NotLoaded, np_random = 0\<rparr>"

definition researcher_same :: researcher where
  "researcher_same = \<lparr>researcher_id = 1, department = None, interests_embedding = Some [1, 0]\<rparr>"

definition researcher_orthogonal :: researcher where
  "researcher_orthogonal = \<lparr>researcher_id = 2, department = None, interests_embedding = Some [0, 1]\<rparr>"

definition researcher_3d :: researcher where
  "researcher_3d = \<lparr>researcher_id = 3, department = None, interests_embedding = Some [1, 0, 0]\<rparr>"

definition researcher_new :: researcher where
  "researcher_new = \<lparr>researcher_id = 4, department = None, interests_embedding = None\<rparr>"

definition db_ok :: database where
  "db_ok = \<lparr>researchers = [researcher_orthogonal, researcher_same], publications = []\<rparr>"

definition db_mismatch :: database where
  "db_mismatch = \<lparr>researchers = [researcher_same, researcher_3d], publications = []\<rparr>"

section \<open>Strings: splitting and joining\<close>

lemma split_from_words:
  "\<lbrakk>\<forall>c\<in>set w. \<not> isspace c; v \<in> set (split_from w s)\<rbrakk>
   \<Longrightarrow> v \<noteq> [] \<and> (\<forall>c\<in>set v. \<not> isspace c) \<and> set v \<subseteq> set w \<union> set s"
proof (induction s arbitrary: w)
  case Nil
  then show ?case by (auto split: if_splits)
next
  case (Cons c cs)
  show ?case
  proof (cases "isspace c")
    case True
    with Cons.prems have "v = w \<and> w \<noteq> [] \<or> v \<in> set (split_from [] cs)"
      by (auto split: if_splits)
    then show ?thesis
    proof
      assume "v = w \<and> w \<noteq> []"
      with Cons.prems(1) show ?thesis by auto
    next
      assume "v \<in> set (split_from [] cs)"
      from Cons.IH[OF _ this] show ?thesis by auto
    qed
  next
    case False
    with Cons.prems have v: "v \<in> set (split_from (w @ [c]) cs)" by simp
    from False Cons.prems(1) have "\<forall>a\<in>set (w @ [c]). \<not> isspace a" by auto
    from Cons.IH[OF this v] show ?thesis by auto
  qed
qed

lemma str_split_words:
  "v \<in> set (str_split s) \<Longrightarrow> v \<noteq> [] \<and> (\<forall>c\<in>set v. \<not> isspace c) \<and> set v \<subseteq> set s"
  using split_from_words[of "[]" v s] by (simp add: str_split_def)

lemma split_from_nonspace:
  "\<forall>c\<in>set v. \<not> isspace c \<Longrightarrow> split_from w (v @ r) = split_from (w @ v) r"
  by (induction v arbitrary: w) auto

lemma split_from_whitespace:
  "\<forall>c\<in>set s. isspace c \<Longrightarrow> split_from [] s = []"
  by (induction s) auto

lemma isspace_space: "isspace (CHR '' '')"
  by (simp add: isspace_def whitespace_def)

lemma str_split_join:
  "\<forall>v\<in>set ws. v \<noteq> [] \<and> (\<forall>c\<in>set v. \<not> isspace c) \<Longrightarrow> str_split (str_join '' '' ws) = ws"
proof (induction ws)
  case Nil
  show ?case by (simp add: str_split_def)
next
  case (Cons w ws)
  from Cons.prems have w: "w \<noteq> []" "\<forall>c\<in>set w. \<not> isspace c" by auto
  show ?case
  proof (cases ws)
    case Nil
    have "split_from [] (w @ []) = split_from ([] @ w) []"
      using w(2) by (rule split_from_nonspace)
    with w(1) Nil show ?thesis by (simp add: str_split_def)
  next
    case (Cons v vs)
    from Cons.IH Cons.prems have IH: "split_from [] (str_join '' '' ws) = ws"
      by (simp add: str_split_def)
    have "split_from [] (w @ '' '' @ str_join '' '' ws)
          = split_from ([] @ w) ('' '' @ str_join '' '' ws)"
      using w(2) by (rule split_from_nonspace)
    also have "\<dots> = w # split_from [] (str_join '' '' ws)"
      using w(1) isspace_space by simp
    finally show ?thesis using IH Cons by (simp add: str_split_def)
  qed
qed

lemma set_str_join: "set (str_join sep ws) \<subseteq> set sep \<union> \<Union> (set ` set ws)"
  by (induction sep ws rule: str_join.induct) auto

section \<open>Normalization\<close>

lemma lower_char_simps:
  "lower_char (CHR ''a'') = CHR ''a''" "lower_char (CHR ''b'') = CHR ''b''"
  "lower_char (CHR ''c'') = CHR ''c''" "lower_char (CHR ''d'') = CHR ''d''"
  "lower_char (CHR ''e'') = CHR ''e''" "lower_char (CHR ''f'') = CHR ''f''"
  "lower_char (CHR ''g'') = CHR ''g''" "lower_char (CHR ''h'') = CHR ''h''"
  "lower_char (CHR ''i'') = CHR ''i''" "lower_char (CHR ''j'') = CHR ''j''"
  "lower_char (CHR ''k'') = CHR ''k''" "lower_char (CHR ''l'') = CHR ''l''"
  "lower_char (CHR ''m'') = CHR ''m''" "lower_char (CHR ''n'') = CHR ''n''"
  "lower_char (CHR ''o'') = CHR ''o''" "lower_char (CHR ''p'') = CHR ''p''"
  "lower_char (CHR ''q'') = CHR ''q''" "lower_char (CHR ''r'') = CHR ''r''"
  "lower_char (CHR ''s'') = CHR ''s''" "lower_char (CHR ''t'') = CHR ''t''"
  "lower_char (CHR ''u'') = CHR ''u''" "lower_char (CHR ''v'') = CHR ''v''"
  "lower_char (CHR ''w'') = CHR ''w''" "lower_char (CHR ''x'') = CHR ''x''"
  "lower_char (CHR ''y'') = CHR ''y''" "lower_char (CHR ''z'') = CHR ''z''"
  "lower_char (CHR ''0'') = CHR ''0''" "lower_char (CHR ''1'') = CHR ''1''"
  "lower_char (CHR ''2'') = CHR ''2''" "lower_char (CHR ''3'') = CHR ''3''"
  "lower_char (CHR ''4'') = CHR ''4''" "lower_char (CHR ''5'') = CHR ''5''"
  "lower_char (CHR ''6'') = CHR ''6''" "lower_char (CHR ''7'') = CHR ''7''"
  "lower_char (CHR ''8'') = CHR ''8''" "lower_char (CHR ''9'') = CHR ''9''"
  "lower_char (CHR ''-'') = CHR ''-''" "lower_char (CHR '' '') = CHR '' ''"
  "lower_char (CHR 0x27) = CHR 0x27" "lower_char (CHR ''A'') = CHR ''a''"
  "lower_char (CHR ''B'') = CHR ''b''" "lower_char (CHR ''C'') = CHR ''c''"
  "lower_char (CHR ''D'') = CHR ''d''" "lower_char (CHR ''E'') = CHR ''e''"
  "lower_char (CHR ''F'') = CHR ''f''" "lower_char (CHR ''G'') = CHR ''g''"
  "lower_char (CHR ''H'') = CHR ''h''" "lower_char (CHR ''I'') = CHR ''i''"
  "lower_char (CHR ''J'') = CHR ''j''" "lower_char (CHR ''K'') = CHR ''k''"
  "lower_char (CHR ''L'') = CHR ''l''" "lower_char (CHR ''M'') = CHR ''m''"
  "lower_char (CHR ''N'') = CHR ''n''" "lower_char (CHR ''O'') = CHR ''o''"
  "lower_char (CHR ''P'') = CHR ''p''" "lower_char (CHR ''Q'') = CHR ''q''"
  "lower_char (CHR ''R'') = CHR ''r''" "lower_char (CHR ''S'') = CHR ''s''"
  "lower_char (CHR ''T'') = CHR ''t''" "lower_char (CHR ''U'') = CHR ''u''"
  "lower_char (CHR ''V'') = CHR ''v''" "lower_char (CHR ''W'') = CHR ''w''"
  "lower_char (CHR ''X'') = CHR ''x''" "lower_char (CHR ''Y'') = CHR ''y''"
  "lower_char (CHR ''Z'') = CHR ''z''"
  by (simp_all add: lower_char_def ascii_uppercase_def ascii_lowercase_def)

lemma isspace_simps:
  "isspace (CHR ''a'') = False" "isspace (CHR ''b'') = False"
  "isspace (CHR ''c'') = False" "isspace (CHR ''d'') = False"
  "isspace (CHR ''e'') = False" "isspace (CHR ''f'') = False"
  "isspace (CHR ''g'') = False" "isspace (CHR ''h'') = False"
  "isspace (CHR ''i'') = False" "isspace (CHR ''j'') = False"
  "isspace (CHR ''k'') = False" "isspace (CHR ''l'') = False"
  "isspace (CHR ''m'') = False" "isspace (CHR ''n'') = False"
  "isspace (CHR ''o'') = False" "isspace (CHR ''p'') = False"
  "isspace (CHR ''q'') = False" "isspace (CHR ''r'') = False"
  "isspace (CHR ''s'') = False" "isspace (CHR ''t'') = False"
  "isspace (CHR ''u'') = False" "isspace (CHR ''v'') = False"
  "isspace (CHR ''w'') = False" "isspace (CHR ''x'') = False"
  "isspace (CHR ''y'') = False" "isspace (CHR ''z'') = False"
  "isspace (CHR ''0'') = False" "isspace (CHR ''1'') = False"
  "isspace (CHR ''2'') = False" "isspace (CHR ''3'') = False"
  "isspace (CHR ''4'') = False" "isspace (CHR ''5'') = False"
  "isspace (CHR ''6'') = False" "isspace (CHR ''7'') = False"
  "isspace (CHR ''8'') = False" "isspace (CHR ''9'') = False"
  "isspace (CHR ''-'') = False" "isspace (CHR '' '') = True"
  "isspace (CHR 0x27) = False" "isspace (CHR ''A'') = False"
  "isspace (CHR ''B'') = False" "isspace (CHR ''C'') = False"
  "isspace (CHR ''D'') = False" "isspace (CHR ''E'') = False"
  "isspace (CHR ''F'') = False" "isspace (CHR ''G'') = False"
  "isspace (CHR ''H'') = False" "isspace (CHR ''I'') = False"
  "isspace (CHR ''J'') = False" "isspace (CHR ''K'') = False"
  "isspace (CHR ''L'') = False" "isspace (CHR ''M'') = False"
  "isspace (CHR ''N'') = False" "isspace (CHR ''O'') = False"
  "isspace (CHR ''P'') = False" "isspace (CHR ''Q'') = False"
  "isspace (CHR ''R'') = False" "isspace (CHR ''S'') = False"
  "isspace (CHR ''T'') = False" "isspace (CHR ''U'') = False"
  "isspace (CHR ''V'') = False" "isspace (CHR ''W'') = False"
  "isspace (CHR ''X'') = False" "isspace (CHR ''Y'') = False"
  "isspace (CHR ''Z'') = False"
  by (simp_all add: isspace_def whitespace_def)

lemma lower_char_plain: "plain_char c \<Longrightarrow> lower_char c = c"
  unfolding plain_char_def ascii_lowercase_def digits_def
  by (auto simp: lower_char_simps)

lemma re_sub_special_plain: "\<forall>c\<in>set s. plain_char c \<Longrightarrow> re_sub_special s = s"
  unfolding re_sub_special_def
  by (rule map_idI) (auto simp: plain_char_def isspace_space)

lemma str_lower_plain: "\<forall>c\<in>set s. plain_char c \<Longrightarrow> str_lower s = s"
  by (auto simp: str_lower_def lower_char_plain intro: map_idI)

lemma re_sub_special_chars: "c \<in> set (re_sub_special s) \<Longrightarrow> plain_char c \<or> isspace c"
  by (auto simp: re_sub_special_def plain_char_def split: if_splits)

lemma normalize_words:
  assumes "v \<in> set (str_split (re_sub_special s))"
  shows "v \<noteq> [] \<and> (\<forall>c\<in>set v. \<not> isspace c) \<and> (\<forall>c\<in>set v. plain_char c)"
proof -
  from str_split_words[OF assms]
  have v: "v \<noteq> []" "\<forall>c\<in>set v. \<not> isspace c" "set v \<subseteq> set (re_sub_special s)" by auto
  then show ?thesis using re_sub_special_chars by blast
qed

lemma normalize_text_fixed:
  assumes "\<forall>v\<in>set ws. v \<noteq> [] \<and> (\<forall>c\<in>set v. \<not> isspace c) \<and> (\<forall>c\<in>set v. plain_char c)"
  shows "normalize_text (str_join '' '' ws) = str_join '' '' ws"
proof -
  have "\<forall>c\<in>set (str_join '' '' ws). plain_char c"
  proof
    fix c assume "c \<in> set (str_join '' '' ws)"
    with set_str_join[of "'' ''" ws] have "c = CHR '' '' \<or> (\<exists>v\<in>set ws. c \<in> set v)" by auto
    with assms show "plain_char c" by (auto simp: plain_char_def)
  qed
  then have "re_sub_special (str_lower (str_join '' '' ws)) = str_join '' '' ws"
    by (simp add: str_lower_plain re_sub_special_plain)
  moreover have "str_split (str_join '' '' ws) = ws"
    using assms by (intro str_split_join) auto
  ultimately show ?thesis by (simp add: normalize_text_def)
qed

text \<open>
  Claim C10. Text normalization is idempotent: normalizing a normalized text gives
  the same text again, for every input string.
\<close>

theorem normalize_text_idempotent:
  "normalize_text (normalize_text t) = normalize_text t"
proof -
  have "normalize_text (str_join '' '' (str_split (re_sub_special (str_lower t))))
        = str_join '' '' (str_split (re_sub_special (str_lower t)))"
    by (rule normalize_text_fixed) (use normalize_words in blast)
  then show ?thesis by (simp add: normalize_text_def)
qed

lemma str_strip_empty: "str_strip s = [] \<longleftrightarrow> (\<forall>c\<in>set s. isspace c)"
proof
  assume "str_strip s = []"
  then have "\<forall>c\<in>set (dropWhile isspace s). isspace c"
    by (simp add: str_strip_def)
  then have "dropWhile isspace s = []"
    by (metis hd_dropWhile list.set_sel(1))
  then show "\<forall>c\<in>set s. isspace c" by simp
next
  assume "\<forall>c\<in>set s. isspace c"
  then have "dropWhile isspace s = []" by simp
  then show "str_strip s = []"
    unfolding str_strip_def by (simp only: rev.simps dropWhile.simps)
qed

lemma lower_char_whitespace:
  "map lower_char whitespace = whitespace"
  by (simp add: whitespace_def lower_char_def ascii_uppercase_def ascii_lowercase_def)

lemma lower_char_space: "isspace c \<Longrightarrow> lower_char c = c"
  using lower_char_whitespace unfolding isspace_def whitespace_def
  by auto

lemma normalize_text_whitespace:
  assumes "\<forall>c\<in>set s. isspace c"
  shows "normalize_text s = []"
proof -
  from assms have "str_lower s = s"
    by (auto simp: str_lower_def lower_char_space intro: map_idI)
  moreover from assms have "re_sub_special s = s"
    by (auto simp: re_sub_special_def intro: map_idI)
  ultimately show ?thesis using assms
    by (simp add: normalize_text_def str_split_def split_from_whitespace)
qed

lemma classify_text_whitespace: "\<forall>c\<in>set text. isspace c \<Longrightarrow> classify_text text threshold = []"
  by (simp add: classify_text_def str_strip_empty)

section \<open>Classification\<close>

lemma classify_loop_filter:
  "classify_loop T t items detected
   = detected @ map fst (filter (\<lambda>(c, K). accepted T t K) items)"
  by (induction items arbitrary: detected) (auto simp: accepted_def Let_def)

lemma fold_count_step:
  "fold (count_step T) K a = a + (\<Sum>k\<leftarrow>K. phrase_credit T (str_lower k))"
  by (induction K arbitrary: a)
     (auto simp: count_step_def phrase_credit_def list_all_iff list_ex_iff Let_def)

lemma keywords_lower_all:
  "list_all (\<lambda>(c, K). list_all (\<lambda>k. str_lower k = k) K) SDG_KEYWORDS"
  by (simp add: SDG_KEYWORDS_def str_lower_def lower_char_simps)

lemma keywords_lower:
  "(c, K) \<in> set SDG_KEYWORDS \<Longrightarrow> k \<in> set K \<Longrightarrow> str_lower k = k"
  using keywords_lower_all by (auto simp: list_all_iff)

lemma count_keyword_matches_spec:
  assumes "(c, K) \<in> set SDG_KEYWORDS"
  shows "count_keyword_matches T K = match_count T K"
proof -
  have "(\<Sum>k\<leftarrow>K. phrase_credit T (str_lower k)) = (\<Sum>k\<leftarrow>K. phrase_credit T k)"
    using keywords_lower[OF assms] by (intro arg_cong[where f = sum_list] map_cong) auto
  then show ?thesis
    by (simp only: count_keyword_matches_def match_count_def fold_count_step add_0)
qed

lemma phrase_credit_nonneg: "0 \<le> phrase_credit T k"
  by (simp add: phrase_credit_def)

lemma match_count_nonneg: "0 \<le> match_count T K"
proof -
  have "0 \<le> (\<Sum>k\<leftarrow>K. phrase_credit T k)"
    by (intro sum_list_nonneg) (auto simp: phrase_credit_nonneg)
  then show ?thesis by (simp add: match_count_def py_int_def)
qed

lemma keys_distinct: "distinct (map fst SDG_KEYWORDS)"
  by (simp add: SDG_KEYWORDS_def)

lemma keys_complete: "c \<in> fst ` set SDG_KEYWORDS"
  by (cases c) (simp_all add: SDG_KEYWORDS_def)

lemma keywords_lookup:
  "(c, K) \<in> set SDG_KEYWORDS \<longleftrightarrow> K = get_keywords_for_sdg c"
proof -
  from keys_complete obtain K' where K': "map_of SDG_KEYWORDS c = Some K'"
    by (metis domD dom_map_of_conv_image_fst)
  have "(c, K) \<in> set SDG_KEYWORDS \<longleftrightarrow> map_of SDG_KEYWORDS c = Some K"
    using keys_distinct by simp
  with K' show ?thesis by (auto simp: get_keywords_for_sdg_def)
qed

lemma tokens_guard:
  assumes "tokenize (normalize_text text) \<noteq> {}"
  shows "text \<noteq> [] \<and> str_strip text \<noteq> []"
proof -
  have "\<not> (\<forall>c\<in>set text. isspace c)"
  proof
    assume "\<forall>c\<in>set text. isspace c"
    then have "normalize_text text = []" by (rule normalize_text_whitespace)
    with assms show False by (simp add: tokenize_def str_split_def)
  qed
  then show ?thesis by (auto simp: str_strip_empty)
qed

lemma classify_text_member:
  assumes "text \<noteq> []" "str_strip text \<noteq> []"
  shows "c \<in> set (classify_text text t)
         \<longleftrightarrow> accepted (tokenize (normalize_text text)) t (get_keywords_for_sdg c)"
proof -
  have "c \<in> set (classify_text text t)
        \<longleftrightarrow> (\<exists>K. (c, K) \<in> set SDG_KEYWORDS \<and> accepted (tokenize (normalize_text text)) t K)"
    using assms by (force simp: classify_text_def classify_loop_filter)
  then show ?thesis by (simp add: keywords_lookup)
qed

text \<open>
  Claim C1, as the code has it. For a text with a non-empty token set and every
  threshold, a category is in the result of \<open>classify_text\<close> if and only if its match
  count \<open>m\<close> is at least 1 and \<open>m / |K|\<close> is at least the threshold, where \<open>K\<close> is the
  keyword list of the category and \<open>m\<close> is the sum of the credits of its phrases (1
  when every word of the phrase is a token, one half when some word is, 0 otherwise)
  truncated toward zero. A category with no match is skipped before the ratio is
  looked at.
\<close>

theorem classify_text_includes_iff:
  assumes "tokenize (normalize_text text) \<noteq> {}"
  shows "c \<in> set (classify_text text threshold)
         \<longleftrightarrow> 1 \<le> match_count (tokenize (normalize_text text)) (get_keywords_for_sdg c)
             \<and> threshold \<le> real_of_int (match_count (tokenize (normalize_text text))
                                 (get_keywords_for_sdg c))
                            / real (length (get_keywords_for_sdg c))"
proof -
  let ?T = "tokenize (normalize_text text)" and ?K = "get_keywords_for_sdg c"
  have K: "(c, ?K) \<in> set SDG_KEYWORDS" by (simp add: keywords_lookup)
  have m: "count_keyword_matches ?T ?K = match_count ?T ?K"
    using K by (rule count_keyword_matches_spec)
  have "match_count ?T ?K \<noteq> 0 \<longleftrightarrow> 1 \<le> match_count ?T ?K"
    using match_count_nonneg[of ?T ?K] by linarith
  with tokens_guard[OF assms] m show ?thesis
    by (simp add: classify_text_member accepted_def)
qed

text \<open>
  Claim C4. Threshold monotonicity: for a fixed text and thresholds \<open>t1 < t2\<close>, every
  category returned at \<open>t2\<close> is returned at \<open>t1\<close>.
\<close>

theorem classify_text_threshold_monotone:
  assumes "t1 < t2"
  shows "set (classify_text text t2) \<subseteq> set (classify_text text t1)"
proof (cases "text = [] \<or> str_strip text = []")
  case True
  then show ?thesis by (auto simp: classify_text_def)
next
  case False
  then have g: "text \<noteq> []" "str_strip text \<noteq> []" by auto
  show ?thesis
  proof
    fix c assume "c \<in> set (classify_text text t2)"
    then have "accepted (tokenize (normalize_text text)) t2 (get_keywords_for_sdg c)"
      by (simp add: classify_text_member[OF g])
    with assms have "accepted (tokenize (normalize_text text)) t1 (get_keywords_for_sdg c)"
      by (auto simp: accepted_def)
    then show "c \<in> set (classify_text text t1)"
      by (simp add: classify_text_member[OF g])
  qed
qed

section \<open>The classifier on concrete texts, and the order of its results\<close>

lemmas string_eval = str_lower_def lower_char_simps str_split_def isspace_simps
lemmas count_eval = string_eval count_step_def count_keyword_matches_def py_int_def SDG_KEYWORDS_def

lemma normalize_hunger_gap: "normalize_text ''hunger gap'' = ''hunger gap''"
  by (simp add: string_eval normalize_text_def re_sub_special_def ascii_lowercase_def digits_def)

lemma tokenize_hunger_gap: "tokenize (normalize_text ''hunger gap'') = {''hunger'', ''gap''}"
  by (simp add: normalize_hunger_gap tokenize_def string_eval)

lemma classify_hunger_gap_low: "classify_text ''hunger gap'' (1 / 20) = [SDG_2, SDG_10]"
proof -
  have "classify_loop {''hunger'', ''gap''} (1 / 20) SDG_KEYWORDS [] = [SDG_2, SDG_10]"
    by (simp add: count_eval)
  then show ?thesis
    by (simp add: classify_text_def tokenize_hunger_gap str_strip_def isspace_simps)
qed

lemma classify_hunger_gap_high: "classify_text ''hunger gap'' (3 / 50) = [SDG_10]"
proof -
  have "classify_loop {''hunger'', ''gap''} (3 / 50) SDG_KEYWORDS [] = [SDG_10]"
    by (simp add: count_eval)
  then show ?thesis
    by (simp add: classify_text_def tokenize_hunger_gap str_strip_def isspace_simps)
qed

lemma tokenize_zzz: "tokenize (normalize_text ''zzz'') = {''zzz''}"
  by (simp add: tokenize_def string_eval normalize_text_def re_sub_special_def ascii_lowercase_def digits_def)

lemma classify_zzz: "classify_text ''zzz'' 0 = []"
proof -
  have "classify_loop {''zzz''} 0 SDG_KEYWORDS [] = []"
    by (simp add: count_eval)
  then show ?thesis
    by (simp add: classify_text_def tokenize_zzz str_strip_def isspace_simps)
qed

text \<open>
  Claim C1 as stated fails at threshold 0: the text \<open>zzz\<close> has a token, the ratio of
  \<open>SDG_10\<close> is 0, which is not below the threshold, and \<open>SDG_10\<close> is not returned.
\<close>

theorem classify_text_ratio_counterexample:
  "tokenize (normalize_text ''zzz'') \<noteq> {}
   \<and> SDG_10 \<notin> set (classify_text ''zzz'' 0)
   \<and> 0 \<le> real_of_int (match_count (tokenize (normalize_text ''zzz'')) (get_keywords_for_sdg SDG_10))
           / real (length (get_keywords_for_sdg SDG_10))"
  by (simp add: tokenize_zzz classify_zzz match_count_nonneg)

text \<open>
  The text \<open>hunger gap\<close> at threshold 1/20: \<open>SDG_2\<close> is returned, with one full match
  among its 17 keywords.
\<close>

theorem classify_text_includes_iff_witness:
  "tokenize (normalize_text ''hunger gap'') \<noteq> {}
   \<and> SDG_2 \<in> set (classify_text ''hunger gap'' (1 / 20))
   \<and> 1 \<le> match_count (tokenize (normalize_text ''hunger gap'')) (get_keywords_for_sdg SDG_2)
   \<and> 1 / 20 \<le> real_of_int (match_count (tokenize (normalize_text ''hunger gap''))
                              (get_keywords_for_sdg SDG_2))
                / real (length (get_keywords_for_sdg SDG_2))"
proof -
  have T: "tokenize (normalize_text ''hunger gap'') \<noteq> {}"
    by (simp add: tokenize_hunger_gap)
  have "SDG_2 \<in> set (classify_text ''hunger gap'' (1 / 20))"
    by (simp add: classify_hunger_gap_low)
  with T classify_text_includes_iff[OF T, of SDG_2 "1 / 20"] show ?thesis
    by simp
qed

text \<open>
  The text \<open>hunger gap\<close> at the thresholds 1/20 and 3/50.
\<close>

theorem classify_text_threshold_monotone_witness:
  "(1 / 20 :: real) < 3 / 50
   \<and> classify_text ''hunger gap'' (3 / 50) = [SDG_10]
   \<and> classify_text ''hunger gap'' (1 / 20) = [SDG_2, SDG_10]
   \<and> set (classify_text ''hunger gap'' (3 / 50)) \<subseteq> set (classify_text ''hunger gap'' (1 / 20))"
proof -
  have h: "(1 / 20 :: real) < 3 / 50" by simp
  from classify_text_threshold_monotone[OF h, of "''hunger gap''"] h show ?thesis
    by (simp add: classify_hunger_gap_low classify_hunger_gap_high)
qed

lemma sdg_less_eval: "\<not> SDG_2 \<le> SDG_10" "SDG_10 \<le> SDG_2"
  by (simp_all add: less_eq_SDGChoices_def)

lemma classify_text_empty: "classify_text [] threshold = []"
  by (simp add: classify_text_def)

lemma classify_publication_sort:
  "classify_publication title abstract threshold
   = sort (remdups (classify_text title (threshold + 1 / 10) @ classify_text abstract threshold))"
proof -
  have "classify_publication title abstract threshold
        = sorted_list_of_set (set (classify_text title (threshold + 1 / 10)
                                   @ classify_text abstract threshold))"
    by (cases "title = []"; cases "abstract = []") (simp_all add: classify_publication_def classify_text_empty)
  then show ?thesis by (simp only: sorted_list_of_set_sort_remdups)
qed

lemma publication_hunger_gap: "classify_publication [] ''hunger gap'' (1 / 20) = [SDG_10, SDG_2]"
  by (simp add: classify_publication_sort classify_hunger_gap_low classify_text_empty sdg_less_eval)

text \<open>
  Claim C6 as stated fails: \<open>classify_text\<close> returns \<open>SDG_2\<close> before \<open>SDG_10\<close>, which is
  not ascending in the codes (the string \<open>SDG_10\<close> is below \<open>SDG_2\<close>), and
  \<open>classify_publication\<close> returns \<open>SDG_10\<close> before \<open>SDG_2\<close>, which is not ascending in
  the numbers of the goals.
\<close>

theorem classifier_order_counterexample:
  "\<not> sorted (classify_text ''hunger gap'' (1 / 20))
   \<and> \<not> sorted_wrt (\<lambda>a b. sdg_number a < sdg_number b)
         (classify_publication [] ''hunger gap'' (1 / 20))"
  by (simp add: classify_hunger_gap_low publication_hunger_gap sdg_less_eval)

lemma keys_numbered: "sorted_wrt (\<lambda>a b. sdg_number a < sdg_number b) (map fst SDG_KEYWORDS)"
  by (simp add: SDG_KEYWORDS_def)

lemma classify_text_numbered:
  "sorted_wrt (\<lambda>a b. sdg_number a < sdg_number b) (classify_text text threshold)"
proof -
  have "sorted_wrt (\<lambda>a b. sdg_number a < sdg_number b)
          (map fst (filter (\<lambda>(c, K). accepted T threshold K) SDG_KEYWORDS))" for T
    using keys_numbered by (simp add: sorted_wrt_map sorted_wrt_filter)
  then show ?thesis by (simp add: classify_text_def classify_loop_filter)
qed

text \<open>
  Claim C6, as the code has it. \<open>classify_publication\<close> returns the category codes
  in ascending order of the codes as strings, each once; \<open>classify_text\<close> returns them
  in the order of the keyword table, which is ascending in the number of the goal.
\<close>

theorem classifier_order:
  "sorted (classify_publication title abstract threshold)
   \<and> distinct (classify_publication title abstract threshold)
   \<and> sorted_wrt (\<lambda>a b. sdg_number a < sdg_number b) (classify_text text threshold)"
  by (simp add: classify_publication_sort classify_text_numbered)

text \<open>
  Claim C5. \<open>classify_publication\<close> returns the union of the categories of the title at
  \<open>threshold + 0.1\<close> and of the abstract at \<open>threshold\<close>, each once, as a sorted
  list; an empty title or an empty abstract contributes nothing.
\<close>

theorem classify_publication_union:
  "set (classify_publication title abstract threshold)
     = set (classify_text title (threshold + 1 / 10)) \<union> set (classify_text abstract threshold)
   \<and> distinct (classify_publication title abstract threshold)
   \<and> sorted (classify_publication title abstract threshold)
   \<and> set (classify_publication [] abstract threshold) = set (classify_text abstract threshold)
   \<and> set (classify_publication title [] threshold) = set (classify_text title (threshold + 1 / 10))"
  by (simp add: classify_publication_sort classify_text_empty)

section \<open>Embeddings\<close>

lemma get_embedding_whitespace:
  "\<forall>c\<in>set text. isspace c \<Longrightarrow> get_embedding lib s text = (None, s)"
  by (simp add: get_embedding_def str_strip_empty)

text \<open>
  Claim C9. Empty input is a no-result outcome: for an empty or whitespace-only text,
  \<open>get_embedding\<close> returns \<open>None\<close> and leaves the process as it was (no model is
  loaded, the random generator is not touched), and \<open>classify_text\<close> returns the
  empty list.
\<close>

theorem empty_input_no_result:
  assumes "\<forall>c\<in>set text. isspace c"
  shows "get_embedding lib s text = (None, s) \<and> classify_text text threshold = []"
  using assms by (simp add: get_embedding_whitespace classify_text_whitespace)

text \<open>
  The empty text and a text of two spaces.
\<close>

theorem empty_input_no_result_witness:
  "get_embedding lib_up process0 '''' = (None, process0)
   \<and> classify_text '''' (3 / 10) = []
   \<and> get_embedding lib_up process0 ''  '' = (None, process0)
   \<and> classify_text ''  '' (3 / 10) = []"
proof -
  have a: "\<forall>c\<in>set ''''. isspace c" by simp
  have b: "\<forall>c\<in>set ''  ''. isspace c" by (simp add: isspace_simps)
  from empty_input_no_result[OF a, of lib_up process0 "3 / 10"]
       empty_input_no_result[OF b, of lib_up process0 "3 / 10"]
  show ?thesis by simp
qed

lemma get_embedding_fallback:
  assumes "SentenceTransformer lib = Inl e"
      and "embedding_model s = NotLoaded \<or> embedding_model s = LoadFailed"
      and "str_strip text \<noteq> []"
  shows "fst (get_embedding lib s text) = Some (fallback_embedding lib text)
         \<and> embedding_model (snd (get_embedding lib s text)) = LoadFailed"
proof -
  from assms(3) have "text \<noteq> []" by (auto simp: str_strip_def)
  with assms show ?thesis
    by (auto simp: get_embedding_def get_embedding_model_def fallback_embedding_def
          EMBEDDING_DIMENSION_def Let_def split: prod.splits)
qed

text \<open>
  Claim C7, as the code has it. When the model cannot be loaded, for every text that
  is neither empty nor whitespace-only, two calls of \<open>get_embedding\<close> in one process
  return the same vector: the 384 samples drawn after seeding the generator with the
  hash of the text modulo \<open>2^32\<close>, divided by their norm.
\<close>

theorem fallback_embedding_deterministic:
  assumes "SentenceTransformer lib = Inl e"
      and "embedding_model s = NotLoaded \<or> embedding_model s = LoadFailed"
      and "str_strip text \<noteq> []"
  shows "fst (get_embedding lib s text) = Some (fallback_embedding lib text)
         \<and> fst (get_embedding lib (snd (get_embedding lib s text)) text)
             = Some (fallback_embedding lib text)"
proof -
  from get_embedding_fallback[OF assms]
  have 1: "fst (get_embedding lib s text) = Some (fallback_embedding lib text)"
    and 2: "embedding_model (snd (get_embedding lib s text)) = LoadFailed" by auto
  from 2 have "embedding_model (snd (get_embedding lib s text)) = NotLoaded
               \<or> embedding_model (snd (get_embedding lib s text)) = LoadFailed" by simp
  from get_embedding_fallback[OF assms(1) this assms(3)] 1 show ?thesis by simp
qed

text \<open>
  A process whose model fails to load, on the text \<open>a\<close>.
\<close>

theorem fallback_embedding_deterministic_witness:
  "fst (get_embedding lib_down process0 ''a'') = Some (fallback_embedding lib_down ''a'')
   \<and> fst (get_embedding lib_down (snd (get_embedding lib_down process0 ''a'')) ''a'')
       = Some (fallback_embedding lib_down ''a'')
   \<and> length (fallback_embedding lib_down ''a'') = 384"
proof -
  have a: "SentenceTransformer lib_down = Inl RuntimeError" by (simp add: lib_down_def)
  have b: "embedding_model process0 = NotLoaded \<or> embedding_model process0 = LoadFailed"
    by (simp add: process0_def)
  have c: "str_strip ''a'' \<noteq> []" by (simp add: str_strip_def isspace_simps)
  from fallback_embedding_deterministic[OF a b c] show ?thesis
    by (simp add: fallback_embedding_def lib_down_def)
qed

text \<open>
  Claim C7 as stated fails on a non-empty text of whitespace: the text of one space
  gets no vector.
\<close>

theorem fallback_embedding_counterexample:
  "'' '' \<noteq> [] \<and> SentenceTransformer lib_down = Inl RuntimeError
   \<and> fst (get_embedding lib_down process0 '' '') = None"
  by (simp add: get_embedding_def str_strip_def isspace_simps lib_down_def)

section \<open>Matching\<close>

lemma try_except_returns: "\<exists>r. try_except body (\<lambda>e. Inr d) = Inr r"
  by (cases body) (simp_all add: try_except_def)

lemma try_except_Inl: "try_except (Inl e) (\<lambda>e. Inr d) = Inr d"
  by (simp add: try_except_def)

lemma find_supervisor_match_returns:
  "\<exists>r. fst (find_supervisor_match lib db s thesis_abstract dept top_k) = Inr r"
  by (simp add: find_supervisor_match_def try_except_returns split: prod.splits)

lemma find_aligned_researchers_returns:
  "\<exists>r. fst (find_aligned_researchers lib db s grant_description dept top_k) = Inr r"
  by (simp add: find_aligned_researchers_def try_except_returns split: prod.splits)

lemma find_thesis_matches_returns:
  "\<exists>r. find_thesis_matches db researcher top_k = Inr r"
  by (simp add: find_thesis_matches_def try_except_returns)

text \<open>
  Claim C8. The three matching operations return a list in every case (no exception
  reaches the caller), and the list is empty when the query embedding cannot be
  produced or, for the publication recommendation, when the researcher has no stored
  interest vector.
\<close>

theorem matching_never_raises:
  "(\<exists>r. fst (find_supervisor_match lib db s thesis_abstract dept top_k) = Inr r)
   \<and> (\<exists>r. fst (find_aligned_researchers lib db s grant_description dept top_k) = Inr r)
   \<and> (\<exists>r. find_thesis_matches db researcher top_k = Inr r)
   \<and> (fst (get_embedding lib s thesis_abstract) = None
        \<longrightarrow> fst (find_supervisor_match lib db s thesis_abstract dept top_k) = Inr [])
   \<and> (fst (get_embedding lib s grant_description) = None
        \<longrightarrow> fst (find_aligned_researchers lib db s grant_description dept top_k) = Inr [])
   \<and> (interests_embedding researcher = None
        \<longrightarrow> find_thesis_matches db researcher top_k = Inr [])"
proof -
  have "fst (find_supervisor_match lib db s thesis_abstract dept top_k) = Inr []"
    if "fst (get_embedding lib s thesis_abstract) = None"
    using that
    by (cases "get_embedding lib s thesis_abstract")
       (simp add: find_supervisor_match_def try_except_def)
  moreover have "fst (find_aligned_researchers lib db s grant_description dept top_k) = Inr []"
    if "fst (get_embedding lib s grant_description) = None"
    using that
    by (cases "get_embedding lib s grant_description")
       (simp add: find_aligned_researchers_def try_except_def)
  moreover have "find_thesis_matches db researcher top_k = Inr []"
    if "interests_embedding researcher = None"
    using that by (simp add: find_thesis_matches_def try_except_def)
  ultimately show ?thesis
    using find_supervisor_match_returns find_aligned_researchers_returns
      find_thesis_matches_returns by blast
qed

lemma get_embedding_up: "get_embedding lib_up process0 ''x''
   = (Some [1, 0], process0\<lparr>embedding_model := Loaded ()\<rparr>)"
  by (simp add: get_embedding_def get_embedding_model_def lib_up_def process0_def
        str_strip_def isspace_simps)

lemma lib_up_output_field: "output_field_default lib_up = Inl TypeError"
  by (simp add: lib_up_def)

text \<open>
  An empty abstract, a researcher without a vector, and a database whose comparison
  raises.
\<close>

theorem matching_never_raises_witness:
  "fst (get_embedding lib_up process0 '''') = None
   \<and> fst (find_supervisor_match lib_up db_ok process0 '''' None 5) = Inr []
   \<and> fst (find_aligned_researchers lib_up db_ok process0 '''' None 5) = Inr []
   \<and> interests_embedding researcher_new = None
   \<and> find_thesis_matches db_ok researcher_new 5 = Inr []
   \<and> (\<exists>r. fst (find_supervisor_match lib_up db_mismatch process0 ''x'' None 5) = Inr r)"
proof -
  have a: "fst (get_embedding lib_up process0 '''') = None"
    by (simp add: get_embedding_def)
  have b: "interests_embedding researcher_new = None"
    by (simp add: researcher_new_def)
  from a b
    matching_never_raises[of lib_up db_ok process0 "''''" None 5 "''''" researcher_new]
    matching_never_raises[of lib_up db_mismatch process0 "''x''" None 5 "''''" researcher_new]
  show ?thesis by blast
qed

lemma annotate_mismatch:
  "\<lbrakk>x \<in> set xs; field x = Some v; length v \<noteq> length q\<rbrakk> \<Longrightarrow> \<exists>e. annotate field q xs = Inl e"
  by (induction xs) (auto simp: CosineDistance_def split: option.splits sum.splits)

lemma fetch_mismatch:
  assumes "annotated = Inl e"
  shows "try_except
           (case fetch annotated top_k of Inl e \<Rightarrow> Inl e | Inr results \<Rightarrow> Inr (map f results))
           (\<lambda>e. Inr []) = Inr []"
  using assms by (simp add: fetch_def try_except_def)

text \<open>
  Claim C2, as the code has it. When a stored vector and the query vector have
  different lengths, the error of the comparison does not reach the caller: the
  ranking operations return the empty list and \<open>score_researcher_for_grant\<close> returns
  0.
\<close>

theorem dimension_mismatch_swallowed:
  assumes "get_embedding lib s text = (Some q, s')"
      and "r \<in> set (department_filter dept (researchers db))"
      and "interests_embedding r = Some v"
      and "length v \<noteq> length q"
  shows "fst (find_supervisor_match lib db s text dept top_k) = Inr []
         \<and> fst (find_aligned_researchers lib db s text dept top_k) = Inr []
         \<and> fst (score_researcher_for_grant lib s r text) = Inr 0"
proof -
  from annotate_mismatch[where field = interests_embedding, OF assms(2,3,4)] obtain e where
    e: "annotate interests_embedding q (department_filter dept (researchers db)) = Inl e" ..
  have 1: "fst (find_supervisor_match lib db s text dept top_k) = Inr []"
    using assms(1) fetch_mismatch[OF e] by (simp add: find_supervisor_match_def)
  have 2: "fst (find_aligned_researchers lib db s text dept top_k) = Inr []"
    using assms(1) fetch_mismatch[OF e] by (simp add: find_aligned_researchers_def)
  have 3: "fst (score_researcher_for_grant lib s r text) = Inr 0"
    using assms(1,3,4)
    by (simp add: score_researcher_for_grant_def try_except_def cosine_def
          split: sum.splits)
  from 1 2 3 show ?thesis by simp
qed

lemma db_mismatch_rows:
  "researcher_3d \<in> set (department_filter None (researchers db_mismatch))"
  by (simp add: department_filter_def db_mismatch_def)

text \<open>
  A stored vector of length 3 against a query vector of length 2.
\<close>

theorem dimension_mismatch_swallowed_witness:
  "CosineDistance [1, 0, 0] [1, 0] = Inl DataError
   \<and> fst (find_supervisor_match lib_up db_mismatch process0 ''x'' None 5) = Inr []
   \<and> fst (find_aligned_researchers lib_up db_mismatch process0 ''x'' None 10) = Inr []
   \<and> fst (score_researcher_for_grant lib_up process0 researcher_3d ''x'') = Inr 0"
proof -
  have v: "interests_embedding researcher_3d = Some [1, 0, 0]"
    by (simp add: researcher_3d_def)
  have l: "length [1, 0, 0 :: real] \<noteq> length [1, 0 :: real]" by simp
  from dimension_mismatch_swallowed[OF get_embedding_up db_mismatch_rows v l, of 5]
       dimension_mismatch_swallowed[OF get_embedding_up db_mismatch_rows v l, of 10]
  show ?thesis by (simp add: CosineDistance_def)
qed

text \<open>
  Claim C2 as stated fails: the comparison of a vector of length 3 with one of length
  2 raises, and the operations return the empty list and 0.
\<close>

theorem dimension_mismatch_counterexample:
  "CosineDistance [1, 0, 0] [1, 0] = Inl DataError
   \<and> cosine [1, 0, 0] [1, 0] = Inl ValueError
   \<and> fst (find_supervisor_match lib_up db_mismatch process0 ''x'' None 5) = Inr []
   \<and> fst (score_researcher_for_grant lib_up process0 researcher_3d ''x'') = Inr 0"
  by (simp add: CosineDistance_def cosine_def find_supervisor_match_def get_embedding_up
        db_mismatch_def researcher_same_def researcher_3d_def department_filter_def
        fetch_def try_except_def score_researcher_for_grant_def lib_up_output_field)

lemma cosine_same: "cosine [1, 0] [1, 0] = Inr 0"
  by (simp add: cosine_def cosine_distance_def dot_def l2_norm_def)

text \<open>
  Claim C3 at a stored vector equal to the query vector, in a process where the
  expression \<open>CosineDistance()._output_field.get_default()\<close> raises (the constructor is
  called without the expression and the vector it is given everywhere else in the
  module): the distance is 0, so the claim gives the score 1, and
  \<open>score_researcher_for_grant\<close> returns 0. The lemmas after it give the scores of
  the ranking operations, which are \<open>1 - d / 2\<close>, and the score of this operation
  for both outcomes of that expression.
\<close>

theorem score_researcher_for_grant_identical:
  "interests_embedding researcher_same = Some [1, 0]
   \<and> fst (get_embedding lib_up process0 ''x'') = Some [1, 0]
   \<and> cosine [1, 0] [1, 0] = Inr 0
   \<and> fst (score_researcher_for_grant lib_up process0 researcher_same ''x'') = Inr 0"
  by (simp add: cosine_same get_embedding_up researcher_same_def score_researcher_for_grant_def
        try_except_def lib_up_output_field)

lemma annotate_distances:
  "\<lbrakk>annotate field q xs = Inr rows; (x, d) \<in> set rows\<rbrakk>
   \<Longrightarrow> \<exists>v. field x = Some v \<and> length v = length q \<and> d = cosine_distance v q"
proof (induction xs arbitrary: rows)
  case Nil
  then show ?case by simp
next
  case (Cons y ys)
  show ?case
  proof (cases "field y")
    case None
    with Cons show ?thesis by simp
  next
    case (Some w)
    with Cons.prems(1) obtain rest where
      w: "length w = length q" and r: "annotate field q ys = Inr rest"
      and rows: "rows = (y, cosine_distance w q) # rest"
      by (auto simp: CosineDistance_def split: if_splits sum.splits)
    from Cons.prems(2) rows consider "(x, d) = (y, cosine_distance w q)" | "(x, d) \<in> set rest"
      by auto
    then show ?thesis
    proof cases
      case 1
      with Some w show ?thesis by simp
    next
      case 2
      from Cons.IH[OF r 2] show ?thesis .
    qed
  qed
qed

lemma fetch_rows:
  "fetch annotated top_k = Inr results
   \<Longrightarrow> results = [] \<or> (\<exists>rows. annotated = Inr rows \<and> set results \<subseteq> set rows)"
  by (auto simp: fetch_def split: if_splits sum.splits dest: in_set_takeD)

lemma ranking_scores:
  assumes "try_except
             (case fetch (annotate field q xs) top_k of
                Inl e \<Rightarrow> Inl e
              | Inr results \<Rightarrow> Inr (map (\<lambda>(x, d). (x, 1 - d / 2)) results))
             (\<lambda>e. Inr []) = Inr scored"
      and "(x, score) \<in> set scored"
  shows "\<exists>v. field x = Some v \<and> length v = length q \<and> score = 1 - cosine_distance v q / 2"
proof (cases "fetch (annotate field q xs) top_k")
  case (Inl e)
  with assms show ?thesis by (simp add: try_except_def)
next
  case (Inr results)
  with assms have "scored = map (\<lambda>(x, d). (x, 1 - d / 2)) results"
    by (simp add: try_except_def)
  with assms(2) obtain d where d: "(x, d) \<in> set results" "score = 1 - d / 2" by auto
  with fetch_rows[OF Inr] obtain rows where
    "annotate field q xs = Inr rows" "(x, d) \<in> set rows" by auto
  from annotate_distances[OF this] d(2) show ?thesis by auto
qed

lemma find_supervisor_match_scores:
  assumes "fst (find_supervisor_match lib db s text dept top_k) = Inr scored"
      and "(r, score) \<in> set scored"
  shows "\<exists>v q. interests_embedding r = Some v \<and> fst (get_embedding lib s text) = Some q
               \<and> length v = length q \<and> score = 1 - cosine_distance v q / 2"
proof (cases "fst (get_embedding lib s text)")
  case None
  with assms show ?thesis
    by (cases "get_embedding lib s text") (simp add: find_supervisor_match_def try_except_def)
next
  case (Some q)
  with assms(1) have "try_except
      (case fetch (annotate interests_embedding q (department_filter dept (researchers db))) top_k of
         Inl e \<Rightarrow> Inl e
       | Inr results \<Rightarrow> Inr (map (\<lambda>(x, d). (x, 1 - d / 2)) results))
      (\<lambda>e. Inr []) = Inr scored"
    by (cases "get_embedding lib s text") (simp add: find_supervisor_match_def)
  from ranking_scores[OF this assms(2)] Some show ?thesis by auto
qed

lemma find_thesis_matches_scores:
  assumes "find_thesis_matches db r top_k = Inr scored"
      and "(p, score) \<in> set scored"
  shows "\<exists>v q. abstract_embedding p = Some v \<and> interests_embedding r = Some q
               \<and> length v = length q \<and> score = 1 - cosine_distance v q / 2"
proof (cases "interests_embedding r")
  case None
  with assms show ?thesis by (simp add: find_thesis_matches_def try_except_def)
next
  case (Some q)
  show ?thesis
  proof (cases "q = []")
    case True
    with Some assms show ?thesis by (simp add: find_thesis_matches_def try_except_def)
  next
    case False
    with Some assms(1) have "try_except
        (case fetch (annotate abstract_embedding q (publications db)) top_k of
           Inl e \<Rightarrow> Inl e
         | Inr results \<Rightarrow> Inr (map (\<lambda>(x, d). (x, 1 - d / 2)) results))
        (\<lambda>e. Inr []) = Inr scored"
      by (simp add: find_thesis_matches_def)
    from ranking_scores[OF this assms(2)] Some show ?thesis by auto
  qed
qed

lemma score_researcher_for_grant_probe_returns:
  assumes "output_field_default lib = Inr x"
      and "interests_embedding r = Some v" and "v \<noteq> []"
      and "fst (get_embedding lib s text) = Some q"
      and "length v = length q"
      and "0 \<le> cosine_distance v q" and "cosine_distance v q \<le> 2"
  shows "fst (score_researcher_for_grant lib s r text) = Inr (1 - cosine_distance v q / 2)"
  using assms
  by (cases "get_embedding lib s text")
     (simp add: score_researcher_for_grant_def try_except_def cosine_def)

lemma score_researcher_for_grant_probe_raises:
  assumes "output_field_default lib = Inl e"
  shows "fst (score_researcher_for_grant lib s r text) = Inr 0"
  using assms
  by (cases "get_embedding lib s text")
     (simp add: score_researcher_for_grant_def try_except_def split: option.splits)

lemma supervisor_match_example:
  "fst (find_supervisor_match lib_up db_ok process0 ''x'' None 5)
   = Inr [(researcher_same, 1), (researcher_orthogonal, 1 / 2)]"
  by (simp add: find_supervisor_match_def get_embedding_up db_ok_def researcher_same_def
        researcher_orthogonal_def department_filter_def fetch_def try_except_def
        CosineDistance_def cosine_distance_def dot_def l2_norm_def)

end
